theory Spec2Isabelle
  imports Main "HOL-Library.Word"
begin

section \<open>JavaScript values as client.js sees them\<close>

text \<open>
  A JavaScript string is a sequence of 16-bit code units. The regular expressions of
  \<^verbatim>\<open>EscapeStringForJSX\<close> match one code unit each, so the model works on code units.
  \<open>js\<close> turns an ASCII literal of the source into its code units.
\<close>

type_synonym jschar = "16 word"
type_synonym jsstring = "jschar list"

definition js :: "string \<Rightarrow> jsstring" where
  "js s = map (\<lambda>c. of_nat (of_char c)) s"

abbreviation backslash :: jschar where "backslash \<equiv> 0x5C"
abbreviation squote :: jschar where "squote \<equiv> 0x27"
abbreviation dquote :: jschar where "dquote \<equiv> 0x22"
abbreviation comma :: jschar where "comma \<equiv> 0x2C"

text \<open>
  Numbers are IEEE-754 doubles. client.js only ever renders them as text, so the type is
  left abstract and the engine's number-to-string conversion is a parameter \<open>nts\<close> of
  every function that needs it.
\<close>

typedecl jsnumber

text \<open>
  The payload of a route is what \<^verbatim>\<open>JSON.parse\<close> built from the wire message (or
  \<^verbatim>\<open>undefined\<close> when the message carried none): an object is the list of its own
  properties, keys distinct.
\<close>

datatype jsval =
    JUndefined
  | JNull
  | JBool bool
  | JNum jsnumber
  | JStr jsstring
  | JArr "jsval list"
  | JObj "(jsstring \<times> jsval) list"

datatype jserror = TypeError

definition bindE :: "'e + 'a \<Rightarrow> ('a \<Rightarrow> 'e + 'b) \<Rightarrow> 'e + 'b" where
  "bindE m f = (case m of Inl e \<Rightarrow> Inl e | Inr a \<Rightarrow> f a)"

text \<open>
  \<^verbatim>\<open>"text" + v\<close> converts \<open>v\<close> to a primitive and then to a string. For a parsed JSON value:
  an array is joined with commas (\<^verbatim>\<open>undefined\<close> and \<^verbatim>\<open>null\<close> elements give the empty string);
  a plain object gives \<^verbatim>\<open>[object Object]\<close> through \<^verbatim>\<open>Object.prototype.toString\<close>, unless
  it has an own property \<^verbatim>\<open>toString\<close>, which (being data, not a function) hides the
  inherited method, and the conversion throws a TypeError.
\<close>

fun ToString :: "(jsnumber \<Rightarrow> jsstring) \<Rightarrow> jsval \<Rightarrow> jserror + jsstring"
  and join :: "(jsnumber \<Rightarrow> jsstring) \<Rightarrow> jsval list \<Rightarrow> jserror + jsstring"
  and join_element :: "(jsnumber \<Rightarrow> jsstring) \<Rightarrow> jsval \<Rightarrow> jserror + jsstring"
where
  "ToString nts JUndefined = Inr (js ''undefined'')"
| "ToString nts JNull = Inr (js ''null'')"
| "ToString nts (JBool b) = Inr (if b then js ''true'' else js ''false'')"
| "ToString nts (JNum n) = Inr (nts n)"
| "ToString nts (JStr s) = Inr s"
| "ToString nts (JArr xs) = join nts xs"
| "ToString nts (JObj ps) =
     (if js ''toString'' \<in> fst ` set ps then Inl TypeError
      else Inr (js ''[object Object]''))"
| "join nts [] = Inr []"
| "join nts [x] = join_element nts x"
| "join nts (x # y # ys) =
     bindE (join_element nts x) (\<lambda>a.
     bindE (join nts (y # ys)) (\<lambda>b. Inr (a @ [comma] @ b)))"
| "join_element nts JUndefined = Inr []"
| "join_element nts JNull = Inr []"
| "join_element nts (JBool b) = ToString nts (JBool b)"
| "join_element nts (JNum n) = ToString nts (JNum n)"
| "join_element nts (JStr s) = ToString nts (JStr s)"
| "join_element nts (JArr xs) = ToString nts (JArr xs)"
| "join_element nts (JObj ps) = ToString nts (JObj ps)"

text \<open>
  \<^verbatim>\<open>v.name\<close> for the property names client.js reads (\<^verbatim>\<open>image_path\<close>, \<^verbatim>\<open>ext\<close>,
  \<^verbatim>\<open>as_copy\<close>, \<^verbatim>\<open>layer_id\<close>, \<^verbatim>\<open>visibility\<close>), none of which the built-in prototypes
  define: reading a property of \<^verbatim>\<open>undefined\<close> or \<^verbatim>\<open>null\<close> throws, an object gives its own
  property or \<^verbatim>\<open>undefined\<close>, every other value gives \<^verbatim>\<open>undefined\<close>.
\<close>

definition getField :: "jsval \<Rightarrow> jsstring \<Rightarrow> jserror + jsval" where
  "getField v k =
     (case v of
        JUndefined \<Rightarrow> Inl TypeError
      | JNull \<Rightarrow> Inl TypeError
      | JObj ps \<Rightarrow> Inr (case map_of ps k of Some x \<Rightarrow> x | None \<Rightarrow> JUndefined)
      | _ \<Rightarrow> Inr JUndefined)"

section \<open>client.js\<close>

subsection \<open>EscapeStringForJSX\<close>

text \<open>
  \<^verbatim>\<open>s.replace(/c/g, rep)\<close> for a pattern that matches the single code unit \<open>c\<close> and a
  replacement text without \<^verbatim>\<open>$\<close>: every occurrence of \<open>c\<close> becomes \<open>rep\<close>.
\<close>

definition replace_all :: "jschar \<Rightarrow> jsstring \<Rightarrow> jsstring \<Rightarrow> jsstring" where
  "replace_all c rep s = concat (map (\<lambda>x. if x = c then rep else [x]) s)"

text \<open>
  \<^verbatim>\<open>return str.replace(/\\/g, '\\\\').replace(/'/g, "\\'").replace(/"/g, '\\"');\<close>
  Calling \<^verbatim>\<open>.replace\<close> on anything but a string throws a TypeError: \<^verbatim>\<open>undefined\<close> and
  \<^verbatim>\<open>null\<close> have no properties, and no other parsed JSON value has a callable \<^verbatim>\<open>replace\<close>.
\<close>

definition EscapeStringForJSX :: "jsval \<Rightarrow> jserror + jsstring" where
  "EscapeStringForJSX str =
     (case str of
        JStr s \<Rightarrow>
          Inr (replace_all dquote [backslash, dquote]
                (replace_all squote [backslash, squote]
                  (replace_all backslash [backslash, backslash] s)))
      | _ \<Rightarrow> Inl TypeError)"

text \<open>
  The escaping as the specification words it: one pass over the string, each backslash,
  single quote and double quote preceded by a backslash, every other code unit kept.
\<close>

definition escape_unit :: "jschar \<Rightarrow> jsstring" where
  "escape_unit c =
     (if c = backslash then [backslash, backslash]
      else if c = squote then [backslash, squote]
      else if c = dquote then [backslash, dquote]
      else [c])"

definition escape_spec :: "jsstring \<Rightarrow> jsstring" where
  "escape_spec s = concat (map escape_unit s)"

subsection \<open>The scripting host and promises\<close>

text \<open>
  The effects of a handler are the messages it logs and the scripts it hands to
  \<^verbatim>\<open>csInterface.evalScript\<close>. The world records both, in order. The host is asynchronous:
  it takes the script and, later, calls the callback with the script's result, which the
  host always delivers as a string.
\<close>

datatype logentry = Warn jsstring | WarnData jsstring jsval

record world =
  evalCalls :: "jsstring list"
  logged :: "logentry list"

definition log_warn :: "jsstring \<Rightarrow> world \<Rightarrow> world" where
  "log_warn msg w = w\<lparr>logged := logged w @ [Warn msg]\<rparr>"

definition log_warn_data :: "jsstring \<Rightarrow> jsval \<Rightarrow> world \<Rightarrow> world" where
  "log_warn_data msg d w = w\<lparr>logged := logged w @ [WarnData msg d]\<rparr>"

text \<open>
  Every promise of client.js hangs on one call of \<^verbatim>\<open>evalScript\<close>: \<open>awaits\<close> is the
  position of that call in \<open>evalCalls\<close>, and \<open>settle p r w\<close> is how the promise settles
  when the host calls back with \<open>r\<close> in world \<open>w\<close>: \<open>Inr v\<close> fulfilled with \<open>v\<close>,
  \<open>Inl e\<close> rejected with \<open>e\<close>. Until the host calls back the promise is pending.
\<close>

datatype promise =
  Promise (awaits: nat) (settle: "jsstring \<Rightarrow> world \<Rightarrow> (jserror + jsstring) \<times> world")

text \<open>
  \<^verbatim>\<open>return new Promise(function(resolve, reject){ csInterface.evalScript(script, resolve); });\<close>
  The executor passes \<^verbatim>\<open>resolve\<close> as the callback and never touches \<^verbatim>\<open>reject\<close>.
\<close>

definition runEvalScript :: "jsstring \<Rightarrow> world \<Rightarrow> promise \<times> world" where
  "runEvalScript script w =
     (Promise (length (evalCalls w)) (\<lambda>result w'. (Inr result, w')),
      w\<lparr>evalCalls := evalCalls w @ [script]\<rparr>)"

text \<open>
  \<^verbatim>\<open>p.then(f)\<close>: when \<open>p\<close> is fulfilled, \<open>f\<close> runs on its value; what \<open>f\<close> returns
  fulfils the new promise, what it throws rejects it. A rejection of \<open>p\<close> passes through.
\<close>

definition then_promise ::
  "promise \<Rightarrow> (jsstring \<Rightarrow> world \<Rightarrow> (jserror + jsstring) \<times> world) \<Rightarrow> promise" where
  "then_promise p f =
     Promise (awaits p)
       (\<lambda>r w. case settle p r w of
                 (Inl e, w') \<Rightarrow> (Inl e, w')
               | (Inr v, w') \<Rightarrow> f v w')"

subsection \<open>The route handlers\<close>

text \<open>
  A handler takes the payload and either throws while it runs (\<open>Inl\<close>) or returns a
  promise (\<open>Inr\<close>).
\<close>

type_synonym handler = "jsval \<Rightarrow> world \<Rightarrow> (jserror + promise) \<times> world"

definition route_message :: "string \<Rightarrow> jsstring" where
  "route_message name =
     js ''Server called client route '' @ [dquote] @ js name @ [dquote] @ js '':''"

definition Photoshop_read :: handler where
  "Photoshop_read data w =
     (let w1 = log_warn_data (route_message ''read'') data w;
          (p, w2) = runEvalScript (js ''getHeadline()'') w1
      in (Inr (then_promise p
                (\<lambda>result w'. (Inr result, log_warn (js ''getHeadline: '' @ result) w'))),
          w2))"

definition Photoshop_get_layers :: handler where
  "Photoshop_get_layers data w =
     (let w1 = log_warn_data (route_message ''get_layers'') data w;
          (p, w2) = runEvalScript (js ''getLayers()'') w1
      in (Inr (then_promise p
                (\<lambda>result w'. (Inr result, log_warn (js ''getLayers: '' @ result) w'))),
          w2))"

text \<open>
  \<^verbatim>\<open>"saveAs('" + escapedPath + "', " + "'" + data.ext + "', " + data.as_copy + ")"\<close>,
  evaluated left to right; the first conversion that throws ends the handler.
\<close>

definition saveAs_script :: "(jsnumber \<Rightarrow> jsstring) \<Rightarrow> jsval \<Rightarrow> jserror + jsstring" where
  "saveAs_script nts data =
     bindE (getField data (js ''image_path'')) (\<lambda>image_path.
     bindE (EscapeStringForJSX image_path) (\<lambda>escapedPath.
     bindE (getField data (js ''ext'')) (\<lambda>ext.
     bindE (ToString nts ext) (\<lambda>ext_text.
     bindE (getField data (js ''as_copy'')) (\<lambda>as_copy.
     bindE (ToString nts as_copy) (\<lambda>as_copy_text.
       Inr (js ''saveAs('' @ [squote] @ escapedPath @ [squote] @ js '', '' @
            [squote] @ ext_text @ [squote] @ js '', '' @
            as_copy_text @ js '')'')))))))"

definition Photoshop_saveAs :: "(jsnumber \<Rightarrow> jsstring) \<Rightarrow> handler" where
  "Photoshop_saveAs nts data w =
     (let w1 = log_warn_data (route_message ''saveAsJPEG'') data w
      in case saveAs_script nts data of
           Inl e \<Rightarrow> (Inl e, w1)
         | Inr script \<Rightarrow>
             (let (p, w2) = runEvalScript script w1
              in (Inr (then_promise p
                        (\<lambda>result w'. (Inr result, log_warn (js ''save: '' @ result) w'))),
                  w2)))"

text \<open>\<^verbatim>\<open>"setVisible(" + data.layer_id + ", " + data.visibility + ")"\<close>\<close>

definition set_visible_script :: "(jsnumber \<Rightarrow> jsstring) \<Rightarrow> jsval \<Rightarrow> jserror + jsstring" where
  "set_visible_script nts data =
     bindE (getField data (js ''layer_id'')) (\<lambda>layer_id.
     bindE (ToString nts layer_id) (\<lambda>layer_id_text.
     bindE (getField data (js ''visibility'')) (\<lambda>visibility.
     bindE (ToString nts visibility) (\<lambda>visibility_text.
       Inr (js ''setVisible('' @ layer_id_text @ js '', '' @ visibility_text @ js '')'')))))"

definition Photoshop_set_visible :: "(jsnumber \<Rightarrow> jsstring) \<Rightarrow> handler" where
  "Photoshop_set_visible nts data w =
     (let w1 = log_warn_data (route_message ''saveAsJPEG'') data w
      in case set_visible_script nts data of
           Inl e \<Rightarrow> (Inl e, w1)
         | Inr script \<Rightarrow>
             (let (p, w2) = runEvalScript script w1
              in (Inr (then_promise p
                        (\<lambda>result w'. (Inr result, log_warn (js ''setVisible: '' @ result) w'))),
                  w2)))"

definition Photoshop_get_active_document_name :: handler where
  "Photoshop_get_active_document_name data w =
     (let w1 = log_warn_data (route_message ''get_active_document_name'') data w;
          (p, w2) = runEvalScript (js ''getActiveDocumentName()'') w1
      in (Inr (then_promise p
                (\<lambda>result w'. (Inr result, log_warn (js ''save: '' @ result) w'))),
          w2))"

subsection \<open>The endpoint address\<close>

record location =
  protocol :: jsstring
  host :: jsstring

text \<open>
  \<^verbatim>\<open>var url = (window.location.protocol==="https):"?"wss://":"ws://") + window.location.host + '/ws/';\<close>
\<close>

definition provisional_url :: "location \<Rightarrow> jsstring" where
  "provisional_url loc =
     (if protocol loc = js ''https):'' then js ''wss://'' else js ''ws://'') @
     host loc @ js ''/ws/''"

text \<open>\<^verbatim>\<open>url = 'ws://localhost:8099/ws/'; RPC = new WSRPC(url, 5000);\<close>\<close>

definition WSRPC_arguments :: "location \<Rightarrow> jsstring \<times> nat" where
  "WSRPC_arguments loc =
     (let url = provisional_url loc;
          url = js ''ws://localhost:8099/ws/''
      in (url, 5000))"

section \<open>The host's reading of a string literal\<close>

text \<open>
  The host reads the generated script with an ECMAScript lexer (ExtendScript follows
  ECMAScript 3). The lexer is no part of the repository; \<open>read_single_quoted\<close> follows
  the grammar of a string literal in ECMA-262 for the text between two single quotes:
  a backslash and the code unit after it form an escape sequence; a single quote outside
  an escape sequence ends the literal; a line terminator (LF, CR, LS, PS) may not stand
  in a literal; every other code unit stands for itself. Of the escape sequences, the
  reader interprets the three that EscapeStringForJSX writes (backslash, single quote,
  double quote, each standing for itself) and answers \<open>OtherEscape\<close> on the rest.
  The result is the literal's value, if the whole text is one literal's contents.
\<close>

datatype literal_error =
    ClosedEarly          \<comment> \<open>a quote ends the literal before the end of the text\<close>
  | LineBreakInLiteral   \<comment> \<open>the lexer's "unterminated string constant"\<close>
  | OpenEscape           \<comment> \<open>the text ends on a backslash, which would escape the closing quote\<close>
  | OtherEscape

definition is_line_terminator :: "jschar \<Rightarrow> bool" where
  "is_line_terminator c \<longleftrightarrow> c = 0x0A \<or> c = 0x0D \<or> c = 0x2028 \<or> c = 0x2029"

definition keep_unit :: "jschar \<Rightarrow> literal_error + jsstring \<Rightarrow> literal_error + jsstring" where
  "keep_unit c rest = (case rest of Inl e \<Rightarrow> Inl e | Inr v \<Rightarrow> Inr (c # v))"

fun read_single_quoted :: "jsstring \<Rightarrow> literal_error + jsstring" where
  "read_single_quoted [] = Inr []"
| "read_single_quoted [c] =
     (if c = backslash then Inl OpenEscape
      else if c = squote then Inl ClosedEarly
      else if is_line_terminator c then Inl LineBreakInLiteral
      else Inr [c])"
| "read_single_quoted (c # d # cs) =
     (if c = backslash then
        (if d = backslash \<or> d = squote \<or> d = dquote
         then keep_unit d (read_single_quoted cs)
         else Inl OtherEscape)
      else if c = squote then Inl ClosedEarly
      else if is_line_terminator c then Inl LineBreakInLiteral
      else keep_unit c (read_single_quoted (d # cs)))"

section \<open>The RPC library around client.js\<close>

text \<open>
  \<^verbatim>\<open>WSRPC\<close> (the route table, the dispatch of inbound requests, the registry of pending
  calls) is used by client.js and defined outside it. What the properties below need of
  it is modelled from the specification, definition by definition.
\<close>

text \<open>Modelled from the spec: the states of a Connection (WSRPC is missing from the sources).\<close>

datatype conn_state = Connecting | Open | Closing | Closed

text \<open>
  Modelled from the spec: the error kinds of the bridge (WSRPC is missing from the
  sources). A \<open>HandlerFailure\<close> carries what the handler threw, a \<open>PeerError\<close> the error
  detail of an error response of the peer.
\<close>

datatype rpc_error =
    NotConnected
  | Timeout
  | ConnectionLost
  | UnknownProcedure
  | DecodeError
  | HandlerFailure jserror
  | PeerError jsval

text \<open>
  Modelled from the spec: the Call Envelope (WSRPC is missing from the sources), with its
  correlation id first.
\<close>

datatype envelope =
    Request nat jsstring jsval
  | Response nat jsval
  | ErrorResponse nat rpc_error

subsection \<open>Route table\<close>

type_synonym route_table = "jsstring \<rightharpoonup> handler"

text \<open>
  Modelled from the spec: \<^verbatim>\<open>RPC.addRoute\<close> of the WSRPC library, missing from the sources
  (Route Table, \<^verbatim>\<open>registerRoute\<close>): at most one handler per procedure name, the last
  registration wins.
\<close>

definition addRoute :: "jsstring \<Rightarrow> handler \<Rightarrow> route_table \<Rightarrow> route_table" where
  "addRoute name h rt = rt(name \<mapsto> h)"

text \<open>The five registrations of client.js, in the order of the script.\<close>

definition client_routes :: "(jsnumber \<Rightarrow> jsstring) \<Rightarrow> route_table" where
  "client_routes nts =
     (let rt = Map.empty;
          rt = addRoute (js ''Photoshop.read'') Photoshop_read rt;
          rt = addRoute (js ''Photoshop.get_layers'') Photoshop_get_layers rt;
          rt = addRoute (js ''Photoshop.saveAs'') (Photoshop_saveAs nts) rt;
          rt = addRoute (js ''Photoshop.set_visible'') (Photoshop_set_visible nts) rt;
          rt = addRoute (js ''Photoshop.get_active_document_name'')
                 Photoshop_get_active_document_name rt
      in rt)"

text \<open>
  Modelled from the spec: what \<^verbatim>\<open>dispatch\<close> of the Route Table produces (WSRPC is missing
  from the sources): an error at once, or the handler's promise.
\<close>

datatype dispatched = Failed rpc_error | Eventually promise

text \<open>
  Modelled from the spec: \<^verbatim>\<open>dispatch\<close> of the Route Table, missing from the sources. It
  looks the handler up; without one it produces \<open>UnknownProcedure\<close> and invokes nothing;
  a handler that raises while it runs is captured as a \<open>HandlerFailure\<close>.
\<close>

definition dispatch ::
  "route_table \<Rightarrow> jsstring \<Rightarrow> jsval \<Rightarrow> world \<Rightarrow> dispatched \<times> world" where
  "dispatch rt name payload w =
     (case rt name of
        None \<Rightarrow> (Failed UnknownProcedure, w)
      | Some h \<Rightarrow>
          (case h payload w of
             (Inl e, w') \<Rightarrow> (Failed (HandlerFailure e), w')
           | (Inr p, w') \<Rightarrow> (Eventually p, w')))"

subsection \<open>Session\<close>

text \<open>
  Modelled from the spec: the RPC Session (WSRPC is missing from the sources), as far as
  inbound requests go: the state of its connection, its route table, the dispatches that
  have not settled yet, each with the correlation id of its request, and the envelopes it
  has sent.
\<close>

record session =
  conn :: conn_state
  routes :: route_table
  in_flight :: "(nat \<times> promise) list"
  sent :: "envelope list"

text \<open>
  Modelled from the spec: inbound message handling of the RPC Session for a request,
  missing from the sources. The request is dispatched; a dispatch that fails at once is
  answered with an \<open>ErrorResponse\<close> that carries the request's correlation id.
\<close>

definition on_request :: "nat \<Rightarrow> jsstring \<Rightarrow> jsval \<Rightarrow> session \<Rightarrow> world \<Rightarrow> session \<times> world" where
  "on_request cid name payload s w =
     (case dispatch (routes s) name payload w of
        (Failed e, w') \<Rightarrow> (s\<lparr>sent := sent s @ [ErrorResponse cid e]\<rparr>, w')
      | (Eventually p, w') \<Rightarrow> (s\<lparr>in_flight := in_flight s @ [(cid, p)]\<rparr>, w'))"

text \<open>
  Modelled from the spec: the envelope for a settled dispatch (WSRPC is missing from the
  sources): a \<open>Response\<close> on success, an \<open>ErrorResponse\<close> on failure, with the same
  correlation id.
\<close>

definition settled_envelope :: "nat \<Rightarrow> jserror + jsstring \<Rightarrow> envelope" where
  "settled_envelope cid outcome =
     (case outcome of
        Inr v \<Rightarrow> Response cid (JStr v)
      | Inl e \<Rightarrow> ErrorResponse cid (HandlerFailure e))"

text \<open>
  Modelled from the spec: what the RPC Session does when a dispatch settles (WSRPC is
  missing from the sources). The host has called back with \<open>r\<close> for the promise \<open>p\<close> of
  request \<open>cid\<close>; the session sends the envelope and forgets the dispatch.
\<close>

definition on_dispatch_settled ::
  "nat \<Rightarrow> promise \<Rightarrow> jsstring \<Rightarrow> session \<Rightarrow> world \<Rightarrow> session \<times> world" where
  "on_dispatch_settled cid p r s w =
     (let (outcome, w') = settle p r w
      in (s\<lparr>in_flight := filter (\<lambda>e. fst e \<noteq> cid) (in_flight s),
             sent := sent s @ [settled_envelope cid outcome]\<rparr>, w'))"

subsection \<open>Pending-Call Registry\<close>

text \<open>
  Modelled from the spec: a Pending Call (WSRPC is missing from the sources). Its timer
  runs as long as the entry is in the registry; the clock is not modelled, so the
  creation time is left out and the expiry of the timer is an event.
\<close>

record pending_call =
  correlation_id :: nat
  procedure_name :: jsstring
  timeout_ms :: nat

text \<open>
  Modelled from the spec: how a completion future was settled and with what (WSRPC is
  missing from the sources).
\<close>

datatype settled_by = ByResponse | ByTimeout | ByDrain

datatype call_result = Success jsval | Failure rpc_error

text \<open>
  Modelled from the spec: the Pending-Call Registry of the WSRPC library, missing from the
  sources. Ids come from a counter. \<open>settlements\<close> lists, in order, every settlement of a
  completion future: the id, what settled it and the result. \<open>anomalies\<close> counts the
  logged protocol anomalies.
\<close>

record registry =
  next_id :: nat
  entries :: "pending_call list"
  settlements :: "(nat \<times> settled_by \<times> call_result) list"
  anomalies :: nat

definition empty_registry :: registry where
  "empty_registry = \<lparr>next_id = 0, entries = [], settlements = [], anomalies = 0\<rparr>"

text \<open>
  Modelled from the spec: \<^verbatim>\<open>register\<close> of the Pending-Call Registry, missing from the
  sources: a fresh correlation id from the counter, and a new entry with its timer.
\<close>

definition register :: "jsstring \<Rightarrow> nat \<Rightarrow> registry \<Rightarrow> nat \<times> registry" where
  "register name timeout reg =
     (next_id reg,
      reg\<lparr>next_id := Suc (next_id reg),
          entries := entries reg @
            [\<lparr>correlation_id = next_id reg, procedure_name = name, timeout_ms = timeout\<rparr>]\<rparr>)"

definition is_pending :: "nat \<Rightarrow> registry \<Rightarrow> bool" where
  "is_pending i reg \<longleftrightarrow> i \<in> correlation_id ` set (entries reg)"

text \<open>
  Modelled from the spec: settling an entry of the Pending-Call Registry (missing from the
  sources) settles its future, cancels its timer and removes the entry.
\<close>

definition settle_entry :: "nat \<Rightarrow> settled_by \<times> call_result \<Rightarrow> registry \<Rightarrow> registry" where
  "settle_entry i how reg =
     reg\<lparr>entries := filter (\<lambda>e. correlation_id e \<noteq> i) (entries reg),
         settlements := settlements reg @ [(i, how)]\<rparr>"

text \<open>
  Modelled from the spec: \<^verbatim>\<open>resolve\<close> and \<^verbatim>\<open>reject\<close> of the Pending-Call Registry, missing
  from the sources. They settle the matching entry; for an id without an entry (a second
  settlement, a late or unknown response) they are a no-op, logged as an anomaly.
\<close>

definition resolve :: "nat \<Rightarrow> jsval \<Rightarrow> registry \<Rightarrow> registry" where
  "resolve i result reg =
     (if is_pending i reg then settle_entry i (ByResponse, Success result) reg
      else reg\<lparr>anomalies := Suc (anomalies reg)\<rparr>)"

definition reject :: "nat \<Rightarrow> rpc_error \<Rightarrow> registry \<Rightarrow> registry" where
  "reject i err reg =
     (if is_pending i reg then settle_entry i (ByResponse, Failure err) reg
      else reg\<lparr>anomalies := Suc (anomalies reg)\<rparr>)"

text \<open>
  Modelled from the spec: \<^verbatim>\<open>expire\<close> of the Pending-Call Registry, missing from the
  sources: invoked by the timer, it settles the entry with \<open>Timeout\<close> if it is still there.
\<close>

definition expire :: "nat \<Rightarrow> registry \<Rightarrow> registry" where
  "expire i reg =
     (if is_pending i reg then settle_entry i (ByTimeout, Failure Timeout) reg else reg)"

text \<open>
  Modelled from the spec: \<^verbatim>\<open>drainAll\<close> of the Pending-Call Registry, missing from the
  sources: on connection loss it settles every entry with the given error and clears the
  registry.
\<close>

definition drainAll :: "rpc_error \<Rightarrow> registry \<Rightarrow> registry" where
  "drainAll err reg =
     reg\<lparr>entries := [],
         settlements := settlements reg @
           map (\<lambda>e. (correlation_id e, ByDrain, Failure err)) (entries reg)\<rparr>"

text \<open>
  What can happen to a registry: a call is registered, a response or an error response
  arrives for an id, a timer fires, the connection is lost. A run applies such events, in
  any number and order, to the empty registry.
\<close>

datatype registry_event =
    Register jsstring nat
  | Resolve nat jsval
  | Reject nat rpc_error
  | Expire nat
  | DrainAll rpc_error

fun registry_step :: "registry \<Rightarrow> registry_event \<Rightarrow> registry" where
  "registry_step reg (Register name timeout) = snd (register name timeout reg)"
| "registry_step reg (Resolve i result) = resolve i result reg"
| "registry_step reg (Reject i err) = reject i err reg"
| "registry_step reg (Expire i) = expire i reg"
| "registry_step reg (DrainAll err) = drainAll err reg"

definition registry_run :: "registry_event list \<Rightarrow> registry" where
  "registry_run evs = foldl registry_step empty_registry evs"

definition times_settled :: "nat \<Rightarrow> registry \<Rightarrow> nat" where
  "times_settled i reg = length (filter (\<lambda>s. fst s = i) (settlements reg))"

text \<open>
  The invariant of the registry: no id is entered twice or settled twice, no id is both
  pending and settled, and the ids handed out so far are exactly the pending and the
  settled ones.
\<close>

definition registry_inv :: "registry \<Rightarrow> bool" where
  "registry_inv reg \<longleftrightarrow>
     distinct (map correlation_id (entries reg)) \<and>
     distinct (map fst (settlements reg)) \<and>
     correlation_id ` set (entries reg) \<inter> fst ` set (settlements reg) = {} \<and>
     correlation_id ` set (entries reg) \<union> fst ` set (settlements reg) = {..<next_id reg}"

section \<open>Properties of EscapeStringForJSX\<close>

lemma replace_all_Nil [simp]: "replace_all c rep [] = []"
  by (simp add: replace_all_def)

lemma replace_all_Cons [simp]:
  "replace_all c rep (x # xs) = (if x = c then rep else [x]) @ replace_all c rep xs"
  by (simp add: replace_all_def)

lemma replace_chain_escape_spec:
  "replace_all dquote [backslash, dquote]
     (replace_all squote [backslash, squote]
       (replace_all backslash [backslash, backslash] s)) = escape_spec s"
  by (induction s) (simp_all add: escape_spec_def escape_unit_def)

text \<open>
  C2. On every string, EscapeStringForJSX doubles each backslash, puts a backslash before
  each single quote and each double quote, and keeps every other code unit as it is; the
  three replacements of the source, backslash first, come to that single pass.
\<close>

theorem EscapeStringForJSX_replaces:
  "EscapeStringForJSX (JStr s) = Inr (escape_spec s)"
  by (simp add: EscapeStringForJSX_def replace_chain_escape_spec)

lemma line_terminator_plain:
  "is_line_terminator c \<Longrightarrow> c \<noteq> backslash \<and> c \<noteq> squote \<and> c \<noteq> dquote"
  by (auto simp: is_line_terminator_def)

lemma read_escape_unit:
  "read_single_quoted (escape_unit c @ t) =
     (if is_line_terminator c then Inl LineBreakInLiteral
      else keep_unit c (read_single_quoted t))"
proof (cases t)
  case Nil
  then show ?thesis
    by (auto simp: escape_unit_def keep_unit_def dest: line_terminator_plain)
next
  case (Cons d cs)
  then show ?thesis
    by (auto simp: escape_unit_def dest: line_terminator_plain)
qed

lemma read_escape_spec:
  "read_single_quoted (escape_spec s) =
     (if \<exists>c\<in>set s. is_line_terminator c then Inl LineBreakInLiteral else Inr s)"
proof (induction s)
  case Nil
  then show ?case by (simp add: escape_spec_def)
next
  case (Cons c s)
  have "escape_spec (c # s) = escape_unit c @ escape_spec s"
    by (simp add: escape_spec_def)
  then show ?case
    using Cons.IH by (simp add: read_escape_unit keep_unit_def)
qed

text \<open>
  C3, as amended. For every string without a line terminator, the host reads the escaped
  text between single quotes back as exactly that string. A string with a line terminator
  escapes to a text that is no string literal at all (the line terminator is kept as it
  is, and the lexer stops there). In neither case does the escaped text end the literal
  early or leave its closing quote escaped.
\<close>

theorem escape_read_back:
  "\<exists>t. EscapeStringForJSX (JStr s) = Inr t \<and>
       read_single_quoted t =
         (if \<exists>c\<in>set s. is_line_terminator c then Inl LineBreakInLiteral else Inr s)"
  by (simp add: EscapeStringForJSX_def replace_chain_escape_spec read_escape_spec)

text \<open>The path \<^verbatim>\<open>C:\it's\<close> is read back as it was.\<close>

theorem escape_read_back_witness:
  "\<exists>t. EscapeStringForJSX (JStr (js ''C:'' @ [backslash] @ js ''it'' @ [squote] @ js ''s'')) = Inr t \<and>
       read_single_quoted t = Inr (js ''C:'' @ [backslash] @ js ''it'' @ [squote] @ js ''s'')"
  using escape_read_back [of "js ''C:'' @ [backslash] @ js ''it'' @ [squote] @ js ''s''"]
  by (simp add: js_def is_line_terminator_def)

text \<open>
  A string with a line feed is not read back: EscapeStringForJSX leaves it unchanged, and
  the text is not the contents of a string literal.
\<close>

theorem line_break_counterexample:
  "EscapeStringForJSX (JStr (js ''a'' @ [0x0A] @ js ''b'')) = Inr (js ''a'' @ [0x0A] @ js ''b'') \<and>
   read_single_quoted (js ''a'' @ [0x0A] @ js ''b'') = Inl LineBreakInLiteral"
  by (simp add: EscapeStringForJSX_def js_def is_line_terminator_def keep_unit_def)

section \<open>Properties of the route handlers\<close>

lemma bindE_Inl [simp]: "bindE (Inl e) f = Inl e"
  by (simp add: bindE_def)

lemma bindE_Inr [simp]: "bindE (Inr a) f = f a"
  by (simp add: bindE_def)

text \<open>
  C1. The claim asks that every string of the payload pass through EscapeStringForJSX
  before it enters the script. The source escapes \<^verbatim>\<open>image_path\<close> only: a quote in
  \<^verbatim>\<open>ext\<close> ends the literal and the rest of \<^verbatim>\<open>ext\<close> runs as script, although
  EscapeStringForJSX would have escaped it; \<^verbatim>\<open>set_visible\<close> escapes nothing.
\<close>

theorem saveAs_ext_interpolated_raw:
  "evalCalls (snd (Photoshop_saveAs nts
      (JObj [(js ''image_path'', JStr (js ''a.jpg'')),
             (js ''ext'', JStr (js ''jpg'' @ [squote] @ js ''); alert(1); ('' @ [squote])),
             (js ''as_copy'', JBool True)]) w))
   = evalCalls w @
       [js ''saveAs('' @ [squote] @ js ''a.jpg'' @ [squote] @ js '', '' @
        [squote] @ js ''jpg'' @ [squote] @ js ''); alert(1); ('' @ [squote] @ [squote] @
        js '', true)''] \<and>
   EscapeStringForJSX (JStr (js ''jpg'' @ [squote] @ js ''); alert(1); ('' @ [squote]))
   = Inr (js ''jpg'' @ [backslash, squote] @ js ''); alert(1); ('' @ [backslash, squote]) \<and>
   evalCalls (snd (Photoshop_set_visible nts
      (JObj [(js ''layer_id'', JStr (js ''1, true); alert(1); (0'')),
             (js ''visibility'', JBool True)]) w))
   = evalCalls w @ [js ''setVisible(1, true); alert(1); (0, true)'']"
  by (simp add: Photoshop_saveAs_def saveAs_script_def Photoshop_set_visible_def
      set_visible_script_def getField_def EscapeStringForJSX_def runEvalScript_def
      log_warn_data_def js_def)

text \<open>
  C8. The promise of runEvalScript hangs on one call of evalScript and is fulfilled with
  whatever the host delivers to the callback; no delivery rejects it.
\<close>

theorem runEvalScript_never_rejects:
  "\<exists>p w'. runEvalScript script w = (p, w') \<and>
          evalCalls w' = evalCalls w @ [script] \<and>
          (\<forall>r w''. settle p r w'' = (Inr r, w''))"
  by (simp add: runEvalScript_def)

text \<open>
  C7. Whatever the payload, the read handler runs the script \<^verbatim>\<open>getHeadline()\<close> and returns
  a promise that is fulfilled with exactly the result the host delivers for it.
\<close>

theorem read_handler:
  "\<exists>p w'. Photoshop_read data w = (Inr p, w') \<and>
          evalCalls w' = evalCalls w @ [js ''getHeadline()''] \<and>
          awaits p = length (evalCalls w) \<and>
          (\<forall>r w''. fst (settle p r w'') = Inr r)"
  by (simp add: Photoshop_read_def runEvalScript_def then_promise_def log_warn_data_def Let_def)

lemma Escape_not_string:
  "\<forall>s. v \<noteq> JStr s \<Longrightarrow> EscapeStringForJSX v = Inl TypeError"
  by (cases v) (simp_all add: EscapeStringForJSX_def)

lemma jserror_TypeError: "(e :: jserror) = TypeError"
  by (cases e) simp

lemma saveAs_script_not_string:
  assumes "\<forall>s. getField data (js ''image_path'') \<noteq> Inr (JStr s)"
  shows "saveAs_script nts data = Inl TypeError"
proof (cases "getField data (js ''image_path'')")
  case (Inl e)
  then show ?thesis
    by (simp add: saveAs_script_def jserror_TypeError [of e])
next
  case (Inr v)
  with assms have "\<forall>s. v \<noteq> JStr s" by auto
  then have "EscapeStringForJSX v = Inl TypeError"
    by (rule Escape_not_string)
  with Inr show ?thesis
    by (simp add: saveAs_script_def)
qed

text \<open>
  C9. When \<^verbatim>\<open>data.image_path\<close> is not a string (also when it is missing, or when the
  payload itself has no properties to read), the saveAs handler throws a TypeError while
  it runs, returns no promise, and hands no script to the host.
\<close>

theorem saveAs_needs_string_path:
  assumes "\<forall>s. getField data (js ''image_path'') \<noteq> Inr (JStr s)"
  shows "\<exists>w'. Photoshop_saveAs nts data w = (Inl TypeError, w') \<and> evalCalls w' = evalCalls w"
  using saveAs_script_not_string [OF assms]
  by (simp add: Photoshop_saveAs_def log_warn_data_def)

text \<open>A payload with an extension and no path.\<close>

theorem saveAs_needs_string_path_witness:
  "\<exists>w'. Photoshop_saveAs (\<lambda>n. []) (JObj [(js ''ext'', JStr (js ''jpg''))])
           \<lparr>evalCalls = [], logged = []\<rparr> = (Inl TypeError, w') \<and>
        evalCalls w' = []"
  using saveAs_needs_string_path [of "JObj [(js ''ext'', JStr (js ''jpg''))]" "\<lambda>n. []"
      "\<lparr>evalCalls = [], logged = []\<rparr>"]
  by (simp add: getField_def js_def)












section \<open>The endpoint address\<close>

text \<open>
  C10. Whatever \<^verbatim>\<open>window.location\<close> is, the address given to the WSRPC constructor is
  \<^verbatim>\<open>ws://localhost:8099/ws/\<close>. The address computed first takes its \<^verbatim>\<open>ws://\<close> branch for
  every protocol without a closing parenthesis, \<^verbatim>\<open>https:\<close> included, since the
  comparison is with \<^verbatim>\<open>https):\<close>.
\<close>

theorem endpoint_constant:
  "fst (WSRPC_arguments loc) = js ''ws://localhost:8099/ws/'' \<and>
   (0x29 \<notin> set (protocol loc) \<longrightarrow> provisional_url loc = js ''ws://'' @ host loc @ js ''/ws/'')"
  by (auto simp: WSRPC_arguments_def provisional_url_def js_def)

text \<open>A page served over https.\<close>

theorem endpoint_constant_witness:
  "fst (WSRPC_arguments \<lparr>protocol = js ''https:'', host = js ''example.org''\<rparr>)
     = js ''ws://localhost:8099/ws/'' \<and>
   provisional_url \<lparr>protocol = js ''https:'', host = js ''example.org''\<rparr>
     = js ''ws://example.org/ws/''"
  using endpoint_constant [of "\<lparr>protocol = js ''https:'', host = js ''example.org''\<rparr>"]
  by (simp add: js_def)

section \<open>Properties of the RPC library as specified\<close>

text \<open>
  C4. When a handler of a registered route throws while it runs, the request is answered
  with an error response that carries the request's correlation id and the failure, and
  the session goes on in the state it was in; the same when the handler's promise is
  rejected.
\<close>

theorem handler_failure_captured:
  "(routes s = client_routes nts \<and> client_routes nts name = Some h \<and>
    h payload w = (Inl e, w') \<longrightarrow>
      (\<exists>s'. on_request cid name payload s w = (s', w') \<and> conn s' = conn s \<and>
            in_flight s' = in_flight s \<and>
            sent s' = sent s @ [ErrorResponse cid (HandlerFailure e)])) \<and>
   (settle p r w = (Inl e, w') \<longrightarrow>
      (\<exists>s'. on_dispatch_settled cid p r s w = (s', w') \<and> conn s' = conn s \<and>
            sent s' = sent s @ [ErrorResponse cid (HandlerFailure e)]))"
  by (simp add: on_request_def dispatch_def on_dispatch_settled_def settled_envelope_def)

text \<open>
  Request 7 for saveAs with the empty payload, on an open session, and a promise that is
  rejected when the host calls back.
\<close>

theorem handler_failure_captured_witness:
  "(\<exists>s'. on_request 7 (js ''Photoshop.saveAs'') (JObj [])
          \<lparr>conn = Open, routes = client_routes (\<lambda>n. []), in_flight = [], sent = []\<rparr>
          \<lparr>evalCalls = [], logged = []\<rparr>
        = (s', \<lparr>evalCalls = [], logged = [WarnData (route_message ''saveAsJPEG'') (JObj [])]\<rparr>) \<and>
        conn s' = Open \<and> in_flight s' = [] \<and>
        sent s' = [ErrorResponse 7 (HandlerFailure TypeError)]) \<and>
   (\<exists>s'. on_dispatch_settled 7 (Promise 0 (\<lambda>r w. (Inl TypeError, w))) []
          \<lparr>conn = Open, routes = client_routes (\<lambda>n. []), in_flight = [], sent = []\<rparr>
          \<lparr>evalCalls = [], logged = []\<rparr>
        = (s', \<lparr>evalCalls = [], logged = []\<rparr>) \<and>
        conn s' = Open \<and> sent s' = [ErrorResponse 7 (HandlerFailure TypeError)])"
proof -
  have r: "client_routes (\<lambda>n. []) (js ''Photoshop.saveAs'') = Some (Photoshop_saveAs (\<lambda>n. []))"
    by (simp add: client_routes_def addRoute_def js_def)
  have h: "Photoshop_saveAs (\<lambda>n. []) (JObj []) \<lparr>evalCalls = [], logged = []\<rparr>
        = (Inl TypeError,
           \<lparr>evalCalls = [], logged = [WarnData (route_message ''saveAsJPEG'') (JObj [])]\<rparr>)"
    by (simp add: Photoshop_saveAs_def saveAs_script_def getField_def EscapeStringForJSX_def
        log_warn_data_def)
  have a: "\<exists>s'. on_request 7 (js ''Photoshop.saveAs'') (JObj [])
          \<lparr>conn = Open, routes = client_routes (\<lambda>n. []), in_flight = [], sent = []\<rparr>
          \<lparr>evalCalls = [], logged = []\<rparr>
        = (s', \<lparr>evalCalls = [], logged = [WarnData (route_message ''saveAsJPEG'') (JObj [])]\<rparr>) \<and>
        conn s' = Open \<and> in_flight s' = [] \<and>
        sent s' = [ErrorResponse 7 (HandlerFailure TypeError)]"
    using handler_failure_captured
      [of "\<lparr>conn = Open, routes = client_routes (\<lambda>n. []), in_flight = [], sent = []\<rparr>"
        "\<lambda>n. []" "js ''Photoshop.saveAs''" "Photoshop_saveAs (\<lambda>n. [])" "JObj []"
        "\<lparr>evalCalls = [], logged = []\<rparr>" TypeError
        "\<lparr>evalCalls = [], logged = [WarnData (route_message ''saveAsJPEG'') (JObj [])]\<rparr>" 7]
      r h
    by simp
  have b: "\<exists>s'. on_dispatch_settled 7 (Promise 0 (\<lambda>r w. (Inl TypeError, w))) []
          \<lparr>conn = Open, routes = client_routes (\<lambda>n. []), in_flight = [], sent = []\<rparr>
          \<lparr>evalCalls = [], logged = []\<rparr>
        = (s', \<lparr>evalCalls = [], logged = []\<rparr>) \<and>
        conn s' = Open \<and> sent s' = [ErrorResponse 7 (HandlerFailure TypeError)]"
    using handler_failure_captured
      [where w = "\<lparr>evalCalls = [], logged = []\<rparr>" and e = TypeError
        and w' = "\<lparr>evalCalls = [], logged = []\<rparr>"
        and p = "Promise 0 (\<lambda>r w. (Inl TypeError, w))" and r = "[]" and cid = 7
        and s = "\<lparr>conn = Open, routes = client_routes (\<lambda>n. []), in_flight = [], sent = []\<rparr>"]
    by simp
  from a b show ?thesis by (rule conjI)
qed

lemma inv_empty: "registry_inv empty_registry"
  by (simp add: registry_inv_def empty_registry_def)

lemma inv_register:
  assumes "registry_inv reg"
  shows "registry_inv (snd (register name timeout reg))"
proof -
  from assms have fresh: "next_id reg \<notin> correlation_id ` set (entries reg)"
    and fresh': "next_id reg \<notin> fst ` set (settlements reg)"
    unfolding registry_inv_def
    by (metis UnI1 lessThan_iff less_irrefl, metis UnI2 lessThan_iff less_irrefl)
  from assms fresh fresh' show ?thesis
    unfolding registry_inv_def register_def
    by (simp add: lessThan_Suc Un_commute insert_commute)
qed

lemma image_filter_neq: "f ` set (filter (\<lambda>e. f e \<noteq> i) xs) = f ` set xs - {i}"
  by auto

lemma inv_settle_entry:
  assumes "registry_inv reg" and "is_pending i reg"
  shows "registry_inv (settle_entry i how reg)"
proof -
  from assms have notyet: "i \<notin> fst ` set (settlements reg)"
    unfolding registry_inv_def is_pending_def by blast
  from assms have pend: "i \<in> correlation_id ` set (entries reg)"
    by (simp add: is_pending_def)
  have d: "distinct (map correlation_id (filter (\<lambda>e. correlation_id e \<noteq> i) (entries reg)))"
    using assms(1) by (simp add: registry_inv_def distinct_map_filter)
  have eq: "correlation_id ` set (filter (\<lambda>e. correlation_id e \<noteq> i) (entries reg))
              = correlation_id ` set (entries reg) - {i}"
    by (rule image_filter_neq)
  show ?thesis
    using assms(1) notyet pend d
    unfolding registry_inv_def settle_entry_def
    by (simp add: eq del: set_filter) blast
qed

lemma inv_anomaly: "registry_inv reg \<Longrightarrow> registry_inv (reg\<lparr>anomalies := n\<rparr>)"
  by (simp add: registry_inv_def)

lemma inv_drainAll:
  assumes "registry_inv reg"
  shows "registry_inv (drainAll err reg)"
proof -
  have m: "map fst (map (\<lambda>e. (correlation_id e, ByDrain, Failure err)) (entries reg))
             = map correlation_id (entries reg)"
    by simp
  have s: "fst ` (\<lambda>e. (correlation_id e, ByDrain, Failure err)) ` set (entries reg)
             = correlation_id ` set (entries reg)"
    by (simp add: image_image)
  from assms show ?thesis
    unfolding registry_inv_def drainAll_def
    by (simp add: m image_Un s Un_commute Int_commute del: map_map)
qed

lemma inv_step: "registry_inv reg \<Longrightarrow> registry_inv (registry_step reg ev)"
  by (cases ev)
    (simp_all add: inv_register inv_settle_entry inv_anomaly inv_drainAll
      resolve_def reject_def expire_def)

lemma inv_foldl: "registry_inv reg \<Longrightarrow> registry_inv (foldl registry_step reg evs)"
  by (induction evs arbitrary: reg) (simp_all add: inv_step)

lemma inv_run: "registry_inv (registry_run evs)"
  by (simp add: registry_run_def inv_foldl inv_empty)

lemma count_distinct_fst:
  "distinct (map fst xs) \<Longrightarrow>
   length (filter (\<lambda>s. fst s = i) xs) = (if i \<in> fst ` set xs then 1 else 0)"
  by (induction xs) (auto simp: image_iff)

lemma inv_times_settled:
  assumes "registry_inv reg"
  shows "times_settled i reg \<le> 1"
    and "i < next_id reg \<Longrightarrow> is_pending i reg \<Longrightarrow> times_settled i reg = 0"
    and "i < next_id reg \<Longrightarrow> \<not> is_pending i reg \<Longrightarrow> times_settled i reg = 1"
  using assms unfolding registry_inv_def times_settled_def is_pending_def
  by (auto simp: count_distinct_fst)

lemma run_snoc: "registry_run (evs @ [ev]) = registry_step (registry_run evs) ev"
  by (simp add: registry_run_def)

text \<open>
  C5. In every run of the registry from its empty state, no correlation id is settled
  more than once; an id that was handed out is either still pending and not settled, or no
  longer pending and settled exactly once (each settlement by exactly one of response,
  timeout and drain); and after the drain of a connection teardown the registry is empty
  and every id handed out has been settled exactly once.
\<close>

theorem settled_exactly_once:
  "times_settled i (registry_run evs) \<le> 1 \<and>
   (i < next_id (registry_run evs) \<longrightarrow>
      (if is_pending i (registry_run evs) then times_settled i (registry_run evs) = 0
       else times_settled i (registry_run evs) = 1)) \<and>
   entries (registry_run (evs @ [DrainAll err])) = [] \<and>
   (i < next_id (registry_run (evs @ [DrainAll err])) \<longrightarrow>
      times_settled i (registry_run (evs @ [DrainAll err])) = 1)"
proof (intro conjI impI)
  have a: "registry_inv (registry_run evs)" by (rule inv_run)
  show "times_settled i (registry_run evs) \<le> 1"
    by (rule inv_times_settled(1) [OF a])
  show "if is_pending i (registry_run evs) then times_settled i (registry_run evs) = 0
        else times_settled i (registry_run evs) = 1"
    if "i < next_id (registry_run evs)"
    using inv_times_settled(2,3) [OF a that] by simp
next
  have b: "registry_inv (registry_run (evs @ [DrainAll err]))" by (rule inv_run)
  show c: "entries (registry_run (evs @ [DrainAll err])) = []"
    by (simp add: run_snoc drainAll_def)
  then have d: "\<not> is_pending i (registry_run (evs @ [DrainAll err]))"
    by (simp add: is_pending_def)
  show "times_settled i (registry_run (evs @ [DrainAll err])) = 1"
    if "i < next_id (registry_run (evs @ [DrainAll err]))"
    by (rule inv_times_settled(3) [OF b that d])
qed

text \<open>
  A call is registered and answered, and its timer fires afterwards: the call is settled
  once, and the later drain finds nothing.
\<close>

theorem settled_exactly_once_witness:
  "times_settled 0 (registry_run [Register (js ''Photoshop.ping'') 5000, Resolve 0 JNull, Expire 0]) = 1 \<and>
   next_id (registry_run [Register (js ''Photoshop.ping'') 5000, Resolve 0 JNull, Expire 0]) = 1 \<and>
   \<not> is_pending 0 (registry_run [Register (js ''Photoshop.ping'') 5000, Resolve 0 JNull, Expire 0]) \<and>
   entries (registry_run ([Register (js ''Photoshop.ping'') 5000, Resolve 0 JNull, Expire 0] @
     [DrainAll ConnectionLost])) = [] \<and>
   times_settled 0 (registry_run ([Register (js ''Photoshop.ping'') 5000, Resolve 0 JNull, Expire 0] @
     [DrainAll ConnectionLost])) = 1"
proof -
  have n: "next_id (registry_run [Register (js ''Photoshop.ping'') 5000, Resolve 0 JNull, Expire 0]) = 1"
    by (simp add: registry_run_def register_def resolve_def expire_def is_pending_def
        settle_entry_def empty_registry_def)
  have p: "\<not> is_pending 0 (registry_run [Register (js ''Photoshop.ping'') 5000, Resolve 0 JNull, Expire 0])"
    by (simp add: registry_run_def register_def resolve_def expire_def is_pending_def
        settle_entry_def empty_registry_def)
  have n': "next_id (registry_run ([Register (js ''Photoshop.ping'') 5000, Resolve 0 JNull, Expire 0] @
     [DrainAll ConnectionLost])) = 1"
    by (simp add: registry_run_def register_def resolve_def expire_def is_pending_def
        settle_entry_def empty_registry_def drainAll_def)
  show ?thesis
    using settled_exactly_once
      [of 0 "[Register (js ''Photoshop.ping'') 5000, Resolve 0 JNull, Expire 0]" ConnectionLost]
      n p n'
    by simp
qed

end
